theory Spec2Isabelle
  imports Complex_Main "HOL-Library.AList"
begin

section \<open>JavaScript values used by the scoring code\<close>

text \<open>
  A JavaScript number is an IEEE double. The scoring code only divides array lengths,
  multiplies and adds small constants, rounds and clamps; the model keeps a finite value
  as an exact rational (the rounding error of double arithmetic is not modelled) and has
  the two special values the code can produce: \<open>NaN\<close> (from \<open>0 / 0\<close>) and \<open>Infinity\<close>
  (from \<open>n / 0\<close> with \<open>n > 0\<close>). Negative infinity cannot arise, since only lengths
  are divided.
\<close>

datatype jsnum = Num rat | NaN | Infinity

text \<open>\<open>a.length / b.length\<close>\<close>

definition js_div :: "nat \<Rightarrow> nat \<Rightarrow> jsnum" where
  "js_div m n =
     (if n = 0 then (if m = 0 then NaN else Infinity) else Num (of_nat m / of_nat n))"

text \<open>\<open>x * c\<close> and \<open>x / c\<close> for a finite constant \<open>c > 0\<close>, and \<open>x + y\<close>.\<close>

fun js_times :: "jsnum \<Rightarrow> rat \<Rightarrow> jsnum" where
  "js_times (Num r) c = Num (r * c)"
| "js_times NaN c = NaN"
| "js_times Infinity c = Infinity"

fun js_over :: "jsnum \<Rightarrow> rat \<Rightarrow> jsnum" where
  "js_over (Num r) c = Num (r / c)"
| "js_over NaN c = NaN"
| "js_over Infinity c = Infinity"

fun js_plus :: "jsnum \<Rightarrow> jsnum \<Rightarrow> jsnum" where
  "js_plus (Num a) (Num b) = Num (a + b)"
| "js_plus NaN y = NaN"
| "js_plus x NaN = NaN"
| "js_plus Infinity y = Infinity"
| "js_plus x Infinity = Infinity"

text \<open>
  The value of \<open>Math.round\<close> is an integer, \<open>NaN\<close> or \<open>Infinity\<close>; it rounds to the
  nearest integer, a tie going up: \<open>Math.round(2.5) = 3\<close>, \<open>Math.round(-2.5) = -2\<close>.
\<close>

datatype jsint = Int_val int | NaN_val | Infinity_val

fun Math_round :: "jsnum \<Rightarrow> jsint" where
  "Math_round (Num r) = Int_val \<lfloor>r + 1 / 2\<rfloor>"
| "Math_round NaN = NaN_val"
| "Math_round Infinity = Infinity_val"

text \<open>\<open>Math.min(x, n)\<close> and \<open>x >= n\<close> for an integer constant \<open>n\<close>.\<close>

fun Math_min :: "jsint \<Rightarrow> int \<Rightarrow> jsint" where
  "Math_min (Int_val k) n = Int_val (min k n)"
| "Math_min NaN_val n = NaN_val"
| "Math_min Infinity_val n = Int_val n"

fun js_ge :: "jsint \<Rightarrow> int \<Rightarrow> bool" where
  "js_ge (Int_val k) n = (n \<le> k)"
| "js_ge NaN_val n = False"
| "js_ge Infinity_val n = True"

text \<open>Number to string, as a template literal \<open>${x}\<close> prints it.\<close>

fun show_nat :: "nat \<Rightarrow> string" where
  "show_nat n =
     (if n < 10 then [''0123456789'' ! n]
      else show_nat (n div 10) @ [''0123456789'' ! (n mod 10)])"

declare show_nat.simps [simp del]

definition show_int :: "int \<Rightarrow> string" where
  "show_int i = (if i < 0 then CHR ''-'' # show_nat (nat (- i)) else show_nat (nat i))"

fun toString :: "jsint \<Rightarrow> string" where
  "toString (Int_val k) = show_int k"
| "toString NaN_val = ''NaN''"
| "toString Infinity_val = ''Infinity''"

text \<open>
  Strings are byte strings; \<open>toLowerCase\<close> is modelled on the ASCII letters, which
  is what skill names are compared on.
\<close>

definition lower_char :: "char \<Rightarrow> char" where
  "lower_char c =
     (case map_of (zip ''ABCDEFGHIJKLMNOPQRSTUVWXYZ'' ''abcdefghijklmnopqrstuvwxyz'') c of
        Some d \<Rightarrow> d
      | None \<Rightarrow> c)"

definition toLowerCase :: "string \<Rightarrow> string" where
  "toLowerCase s = map lower_char s"

text \<open>\<open>s.includes(t)\<close>: \<open>t\<close> occurs in \<open>s\<close> as a contiguous substring.\<close>

fun starts_with :: "string \<Rightarrow> string \<Rightarrow> bool" where
  "starts_with s [] = True"
| "starts_with [] (c # t) = False"
| "starts_with (a # s) (c # t) = (a = c \<and> starts_with s t)"

fun str_includes :: "string \<Rightarrow> string \<Rightarrow> bool" where
  "str_includes [] t = (t = [])"
| "str_includes (a # s) t = (starts_with (a # s) t \<or> str_includes s t)"

section \<open>Match scoring\<close>

text \<open>
  The columns of \<open>jobs\<close> and \<open>applicant_profiles\<close> the scoring reads. Both array
  columns and both scalar columns are nullable.
\<close>

record job =
  skills_required :: "string list option"
  experience_level :: "string option"

record applicant_profile =
  skills :: "string list option"
  experience_years :: "int option"

subsection \<open>Server side: the \<open>ai-analysis\<close> function\<close>

text \<open>
  \<open>job\<close> and \<open>profile\<close> are the \<open>data\<close> of two \<open>.single()\<close> queries, \<open>null\<close> when
  no row is found. An array is truthy even when empty; the number \<open>0\<close> and the empty
  string are falsy.
\<close>

definition skills_term :: "string list \<Rightarrow> string list \<Rightarrow> jsnum" where
  "skills_term ps rs =
     (let applicantSkills = map toLowerCase ps;
          requiredSkills = map toLowerCase rs;
          matchingSkills =
            filter (\<lambda>skill. list_ex (\<lambda>req. str_includes req skill \<or> str_includes skill req)
                                requiredSkills)
              applicantSkills
      in js_times (js_div (length matchingSkills) (length requiredSkills)) 30)"

definition experience_bonus :: "string \<Rightarrow> int \<Rightarrow> rat" where
  "experience_bonus level expYears =
     (if level = ''senior'' \<and> expYears \<ge> 5 then 10
      else if level = ''mid'' \<and> expYears \<ge> 2 then 10
      else if level = ''junior'' \<and> expYears \<ge> 0 then 10
      else 0)"

definition matchScore :: "job option \<Rightarrow> applicant_profile option \<Rightarrow> jsint" where
  "matchScore j p =
     (let s0 = Num 60;
          s1 = (case (Option.bind p skills, Option.bind j skills_required) of
                  (Some ps, Some rs) \<Rightarrow> js_plus s0 (skills_term ps rs)
                | _ \<Rightarrow> s0);
          s2 = (case (Option.bind p experience_years, Option.bind j experience_level) of
                  (Some y, Some l) \<Rightarrow>
                    if y \<noteq> 0 \<and> l \<noteq> [] then js_plus s1 (Num (experience_bonus l y)) else s1
                | _ \<Rightarrow> s1)
      in Math_min (Math_round s2) 100)"

definition analysis_text :: "jsint \<Rightarrow> string" where
  "analysis_text ms =
     ''Candidate shows '' @ toString ms @ ''% compatibility with the role. '' @
     (if js_ge ms 80 then ''Strong'' else if js_ge ms 60 then ''Good'' else ''Moderate'') @
     '' match based on skills and experience.''"

text \<open>
  The row upserted into \<open>ai_match_scores\<close>, keyed by \<open>(job_id, applicant_id)\<close>. The
  column \<open>match_score\<close> is \<open>INTEGER NOT NULL CHECK (match_score >= 0 AND match_score <= 100)\<close>;
  \<open>NaN\<close> and \<open>Infinity\<close> are sent as JSON \<open>null\<close>, which the column refuses.
\<close>

record match_row =
  match_score :: int
  analysis :: string

type_synonym match_table = "string \<times> string \<rightharpoonup> match_row"

definition upsert_score ::
  "match_table \<Rightarrow> string \<Rightarrow> string \<Rightarrow> jsint \<Rightarrow> string \<Rightarrow> match_table option" where
  "upsert_score t jobId applicantId ms body =
     (case ms of
        Int_val k \<Rightarrow>
          if 0 \<le> k \<and> k \<le> 100
          then Some (t((jobId, applicantId) \<mapsto> \<lparr>match_score = k, analysis = body\<rparr>))
          else None
      | _ \<Rightarrow> None)"

text \<open>
  The handler: the response body on success (\<open>match_score\<close>, \<open>analysis\<close>) with the new
  table, or the message of the error it throws, answered with status 500.
\<close>

definition ai_analysis ::
  "match_table \<Rightarrow> string \<Rightarrow> string \<Rightarrow> job option \<Rightarrow> applicant_profile option \<Rightarrow>
   string + (jsint \<times> string) \<times> match_table" where
  "ai_analysis t jobId applicantId j p =
     (let ms = matchScore j p; body = analysis_text ms
      in case upsert_score t jobId applicantId ms body of
           None \<Rightarrow> Inl ''Failed to save match score''
         | Some t' \<Rightarrow> Inr ((ms, body), t'))"

subsection \<open>Client side: \<open>calculateMatchScore\<close> of the applicant's job list\<close>

definition experienceScore :: "string option \<Rightarrow> int \<Rightarrow> rat" where
  "experienceScore level years =
     (if level = Some ''entry'' then (if years \<ge> 0 then 100 else 50)
      else if level = Some ''mid'' then (if years \<ge> 3 then 100 else max 0 (of_int years * 33))
      else if level = Some ''senior'' then (if years \<ge> 7 then 100 else max 0 (of_int years * 14))
      else if level = Some ''lead'' then (if years \<ge> 10 then 100 else max 0 (of_int years * 10))
      else 75)"

definition skillScore :: "string list \<Rightarrow> string list \<Rightarrow> jsnum" where
  "skillScore rs us =
     (let matchingSkills =
            filter (\<lambda>skill. list_ex (\<lambda>userSkill.
                       str_includes (toLowerCase userSkill) (toLowerCase skill) \<or>
                       str_includes (toLowerCase skill) (toLowerCase userSkill)) us) rs
      in js_times (js_div (length matchingSkills) (length rs)) 100)"

text \<open>
  \<open>score\<close> and \<open>factors\<close> are threaded through the three blocks of the function:
  the skills block, the experience block and the base compatibility.
\<close>

definition skills_block :: "job \<Rightarrow> applicant_profile \<Rightarrow> jsnum \<times> rat" where
  "skills_block j p =
     (case (skills_required j, skills p) of
        (Some rs, Some us) \<Rightarrow> (js_plus (Num 0) (js_times (skillScore rs us) (4 / 10)), 4 / 10)
      | _ \<Rightarrow> (Num 0, 0))"

definition experience_block :: "job \<Rightarrow> applicant_profile \<Rightarrow> jsnum \<times> rat \<Rightarrow> jsnum \<times> rat" where
  "experience_block j p sf =
     (case experience_years p of
        Some y \<Rightarrow>
          if y \<noteq> 0
          then (js_plus (fst sf) (Num (experienceScore (experience_level j) y * (3 / 10))),
                snd sf + 3 / 10)
          else sf
      | None \<Rightarrow> sf)"

definition calculateMatchScore :: "applicant_profile option \<Rightarrow> job \<Rightarrow> jsint" where
  "calculateMatchScore applicantProfile j =
     (case applicantProfile of
        None \<Rightarrow> Int_val 0
      | Some p \<Rightarrow>
          let (score2, factors2) = experience_block j p (skills_block j p);
              score3 = js_plus score2 (Num (75 * (3 / 10)));
              factors3 = factors2 + 3 / 10
          in Math_round (js_over score3 factors3))"

subsection \<open>The recruiter's candidate list\<close>

text \<open>
  \<open>Math.floor(Math.random() * 40) + 60\<close>. The value of \<open>Math.random()\<close>, a double in
  \<open>[0, 1)\<close>, is the second argument.
\<close>

definition getAverageMatchScore :: "'candidate \<Rightarrow> rat \<Rightarrow> int" where
  "getAverageMatchScore candidate random = \<lfloor>random * 40\<rfloor> + 60"

section \<open>Assessments\<close>

record question =
  question :: string
  qtype :: string
  options :: "string list"

text \<open>
  The \<open>questions\<close> column is JSONB. The code tells three shapes apart: an array, an
  object with the optional members \<open>work_ethics\<close> and \<open>technical\<close>, and anything else.
\<close>

datatype payload =
  Flat "question list"
| Bucketed "question list option" "question list option"
| Other

datatype assessment_status = Sent | In_progress | Completed | Expired

text \<open>A row of \<open>public.assessments\<close>. Times are milliseconds since the epoch.\<close>

record assessment =
  assessment_id :: string
  application_id :: string
  job_id :: string
  applicant_id :: string
  questions :: payload
  status :: assessment_status
  assessment_url :: string
  score :: "int option"
  responses :: "(string \<times> string) list option"
  expires_at :: int
  created_at :: int
  updated_at :: int



subsection \<open>The \<open>generate-assessment\<close> function\<close>

definition defaultQuestions :: payload where
  "defaultQuestions =
     Bucketed
       (Some [\<lparr>question = ''How do you handle tight deadlines?'', qtype = ''multiple_choice'',
                options = [''Plan ahead'', ''Work overtime'', ''Ask for help'', ''Prioritize tasks'']\<rparr>,
              \<lparr>question = ''What motivates you at work?'', qtype = ''multiple_choice'',
                options = [''Recognition'', ''Growth'', ''Team success'', ''Challenges'']\<rparr>])
       (Some [\<lparr>question = ''Your experience with required tech?'', qtype = ''multiple_choice'',
                options = [''Expert level'', ''Intermediate'', ''Beginner'', ''No experience'']\<rparr>,
              \<lparr>question = ''Your problem-solving approach?'', qtype = ''multiple_choice'',
                options = [''Research first'', ''Trial and error'', ''Ask colleagues'',
                           ''Break into steps'']\<rparr>])"

text \<open>\<open>interval '7 days'\<close>, in milliseconds.\<close>

definition seven_days :: int where
  "seven_days = 7 * 24 * 60 * 60 * 1000"


text \<open>
  The handler. \<open>uuid\<close> is the value of \<open>crypto.randomUUID()\<close> and \<open>now\<close> the database
  clock at the insert. The request's \<open>questions\<close> is \<open>None\<close> when it is omitted (or
  falsy). The columns the insert leaves out take their defaults:
  \<open>expires_at = now() + interval '7 days'\<close>, \<open>created_at = updated_at = now()\<close>, no
  score and no responses. The result is the error message, or the response
  \<open>(assessmentId, assessmentUrl)\<close> with the new database.
\<close>

definition assessment_url_of :: "string \<Rightarrow> string" where
  "assessment_url_of assessmentId =
     ''https://3546ba8a-43ad-441c-9ebb-78d22208b095.lovableproject.com/assessment/'' @ assessmentId"



subsection \<open>Writing a submission\<close>

text \<open>
  \<open>update(...).eq('id', assessmentId)\<close> under the row-level policy
  \<open>USING (auth.uid() = applicant_id)\<close>: the rows of that id that belong to the caller
  are changed, the others are left as they are, and no error is raised when none matches.
\<close>

definition update_rows ::
  "string \<Rightarrow> string \<Rightarrow> (assessment \<Rightarrow> assessment) \<Rightarrow> assessment list \<Rightarrow> assessment list" where
  "update_rows uid aid f rows =
     map (\<lambda>r. if assessment_id r = aid \<and> applicant_id r = uid then f r else r) rows"

text \<open>
  The fields both submission paths write. \<open>updated_at\<close> is set by the trigger
  \<open>update_assessments_updated_at\<close>. A score that is \<open>NaN\<close> or \<open>Infinity\<close> is sent as
  JSON \<open>null\<close>.
\<close>

fun json_number :: "jsint \<Rightarrow> int option" where
  "json_number (Int_val k) = Some k"
| "json_number NaN_val = None"
| "json_number Infinity_val = None"

definition submission ::
  "(string \<times> string) list \<Rightarrow> jsint \<Rightarrow> int \<Rightarrow> assessment \<Rightarrow> assessment" where
  "submission rs sc now r =
     r\<lparr>responses := Some rs, score := json_number sc, status := Completed, updated_at := now\<rparr>"

subsection \<open>The assessment modal\<close>

text \<open>The normalization of \<open>parsedQuestions\<close> into \<open>questionsArray\<close>.\<close>

fun questionsArray :: "payload \<Rightarrow> question list" where
  "questionsArray (Flat qs) = qs"
| "questionsArray (Bucketed workEthicsQuestions technicalQuestions) =
     (case workEthicsQuestions of Some w \<Rightarrow> w | None \<Rightarrow> []) @
     (case technicalQuestions of Some t \<Rightarrow> t | None \<Rightarrow> [])"
| "questionsArray Other = []"

text \<open>
  The component's state: the props \<open>assessmentId\<close> and the signed-in user, the loaded
  \<open>assessment\<close> (the row with its questions normalized; \<open>None\<close> is \<open>null\<close>), the
  \<open>responses\<close> object and the seconds left.
\<close>

record modal =
  m_assessmentId :: string
  m_user :: string
  m_assessment :: "(assessment \<times> question list) option"
  m_responses :: "(string \<times> string) list"
  timeRemaining :: int

datatype fetch_outcome = Load_error | Already_completed | Has_expired | Loaded

text \<open>
  \<open>select('*').eq('id', assessmentId).eq('applicant_id', user?.id).single()\<close>: the rows
  selected; \<open>.single()\<close> is an error unless there is exactly one.
\<close>

definition modal_select :: "assessment list \<Rightarrow> modal \<Rightarrow> assessment list" where
  "modal_select rows m =
     filter (\<lambda>r. assessment_id r = m_assessmentId m \<and> applicant_id r = m_user m) rows"

definition fetchAssessment :: "assessment list \<Rightarrow> int \<Rightarrow> modal \<Rightarrow> fetch_outcome \<times> modal" where
  "fetchAssessment rows now m =
     (case modal_select rows m of
        [data] \<Rightarrow>
          if status data = Completed then (Already_completed, m)
          else if expires_at data < now then (Has_expired, m)
          else (Loaded, m\<lparr>m_assessment := Some (data, questionsArray (questions data)),
                           timeRemaining := (expires_at data - now) div 1000\<rparr>)
      | _ \<Rightarrow> (Load_error, m))"

definition handleResponseChange :: "string \<Rightarrow> string \<Rightarrow> modal \<Rightarrow> modal" where
  "handleResponseChange questionId v m = m\<lparr>m_responses := AList.update questionId v (m_responses m)\<rparr>"

definition is_space :: "char \<Rightarrow> bool" where
  "is_space c = (c \<in> set [CHR '' '', CHR 0x09, CHR 0x0A, CHR 0x0B, CHR 0x0C, CHR 0x0D])"

definition trim :: "string \<Rightarrow> string" where
  "trim s = rev (dropWhile is_space (rev (dropWhile is_space s)))"

text \<open>\<open>response && response.trim().length > 0\<close> for the question at \<open>index\<close>.\<close>

definition answered :: "(string \<times> string) list \<Rightarrow> nat \<Rightarrow> bool" where
  "answered rs index =
     (case map_of rs (''question_'' @ show_nat index) of
        Some response \<Rightarrow> response \<noteq> [] \<and> length (trim response) > 0
      | None \<Rightarrow> False)"

definition calculateScore :: "modal \<Rightarrow> jsint" where
  "calculateScore m =
     (case m_assessment m of
        None \<Rightarrow> Int_val 0
      | Some (data, qs) \<Rightarrow>
          let totalQuestions = length qs;
              correctAnswers = length (filter (answered (m_responses m)) [0..<totalQuestions])
          in if totalQuestions > 0
             then Math_round (js_times (js_div correctAnswers totalQuestions) 100)
             else Int_val 0)"

datatype submit_outcome = Nothing_loaded | Submitted

definition handleSubmit :: "modal \<Rightarrow> int \<Rightarrow> assessment list \<Rightarrow> submit_outcome \<times> assessment list" where
  "handleSubmit m now rows =
     (case m_assessment m of
        None \<Rightarrow> (Nothing_loaded, rows)
      | Some a \<Rightarrow>
          (Submitted,
           update_rows (m_user m) (m_assessmentId m)
             (submission (m_responses m) (calculateScore m) now) rows))"

subsection \<open>The standalone assessment page\<close>

datatype quiz_section = Work_ethics | Technical

fun section_name :: "quiz_section \<Rightarrow> string" where
  "section_name Work_ethics = ''work_ethics''"
| "section_name Technical = ''technical''"

text \<open>\<open>assessment.questions[section]\<close>: \<open>None\<close> is \<open>undefined\<close>.\<close>

fun bucket :: "payload \<Rightarrow> quiz_section \<Rightarrow> question list option" where
  "bucket (Bucketed w t) Work_ethics = w"
| "bucket (Bucketed w t) Technical = t"
| "bucket (Flat qs) s = None"
| "bucket Other s = None"

text \<open>
  The component's state: the route's \<open>assessmentId\<close>, the signed-in user of the session,
  the loaded \<open>assessment\<close>, the position in the quiz and the \<open>answers\<close> object.
\<close>

record page =
  p_assessmentId :: string
  p_user :: string
  p_assessment :: "assessment option"
  currentSection :: quiz_section
  currentQuestionIndex :: int
  answers :: "(string \<times> string) list"

text \<open>
  The page selects by id alone; the row-level policies show a row to its applicant and to
  the recruiter of its job (\<open>recruiter\<close> maps a job id to \<open>jobs.recruiter_id\<close>). The
  expiry is checked before the status.
\<close>

definition page_select :: "(string \<rightharpoonup> string) \<Rightarrow> assessment list \<Rightarrow> page \<Rightarrow> assessment list" where
  "page_select recruiter rows p =
     filter (\<lambda>r. assessment_id r = p_assessmentId p \<and>
                 (applicant_id r = p_user p \<or> recruiter (job_id r) = Some (p_user p))) rows"

definition page_fetchAssessment ::
  "(string \<rightharpoonup> string) \<Rightarrow> assessment list \<Rightarrow> int \<Rightarrow> page \<Rightarrow> fetch_outcome \<times> page" where
  "page_fetchAssessment recruiter rows now p =
     (case page_select recruiter rows p of
        [data] \<Rightarrow>
          if expires_at data < now then (Has_expired, p)
          else if status data = Completed then (Already_completed, p)
          else (Loaded, p\<lparr>p_assessment := Some data\<rparr>)
      | _ \<Rightarrow> (Load_error, p))"

definition getCurrentQuestions :: "page \<Rightarrow> question list" where
  "getCurrentQuestions p =
     (case p_assessment p of
        None \<Rightarrow> []
      | Some a \<Rightarrow> (case bucket (questions a) (currentSection p) of Some qs \<Rightarrow> qs | None \<Rightarrow> []))"

definition bucket_length :: "payload \<Rightarrow> quiz_section \<Rightarrow> nat" where
  "bucket_length q s = (case bucket q s of Some qs \<Rightarrow> length qs | None \<Rightarrow> 0)"

definition getTotalQuestions :: "page \<Rightarrow> nat" where
  "getTotalQuestions p =
     (case p_assessment p of
        None \<Rightarrow> 0
      | Some a \<Rightarrow> bucket_length (questions a) Work_ethics + bucket_length (questions a) Technical)"

definition getCompletedQuestions :: "page \<Rightarrow> nat" where
  "getCompletedQuestions p = length (answers p)"

definition key_of :: "quiz_section \<Rightarrow> int \<Rightarrow> string" where
  "key_of s i = section_name s @ ''_'' @ show_int i"

definition questionKey :: "page \<Rightarrow> string" where
  "questionKey p = key_of (currentSection p) (currentQuestionIndex p)"

definition handleAnswerChange :: "string \<Rightarrow> page \<Rightarrow> page" where
  "handleAnswerChange v p = p\<lparr>answers := AList.update (questionKey p) v (answers p)\<rparr>"

definition page_score :: "page \<Rightarrow> jsint" where
  "page_score p = Math_round (js_times (js_div (getCompletedQuestions p) (getTotalQuestions p)) 100)"

definition page_handleSubmit :: "page \<Rightarrow> int \<Rightarrow> assessment list \<Rightarrow> assessment list" where
  "page_handleSubmit p now rows =
     update_rows (p_user p) (p_assessmentId p) (submission (answers p) (page_score p) now) rows"

text \<open>
  \<open>handleNext\<close> moves on, changes section, or submits at the end of the technical
  part; \<open>handlePrevious\<close> moves back.
\<close>

definition handleNext :: "page \<Rightarrow> int \<Rightarrow> assessment list \<Rightarrow> page \<times> assessment list" where
  "handleNext p now rows =
     (if currentQuestionIndex p < int (length (getCurrentQuestions p)) - 1
      then (p\<lparr>currentQuestionIndex := currentQuestionIndex p + 1\<rparr>, rows)
      else if currentSection p = Work_ethics
      then (p\<lparr>currentSection := Technical, currentQuestionIndex := 0\<rparr>, rows)
      else (p, page_handleSubmit p now rows))"

definition handlePrevious :: "page \<Rightarrow> page" where
  "handlePrevious p =
     (if currentQuestionIndex p > 0
      then p\<lparr>currentQuestionIndex := currentQuestionIndex p - 1\<rparr>
      else if currentSection p = Technical
      then p\<lparr>currentSection := Work_ethics,
             currentQuestionIndex :=
               int (case p_assessment p of
                      None \<Rightarrow> 0
                    | Some a \<Rightarrow> bucket_length (questions a) Work_ethics) - 1\<rparr>
      else p)"

text \<open>
  What the rendered page lets the applicant do. A radio item exists for each option of
  the current question, if there is one; \<open>Next\<close> is disabled while the current question
  has no answer, \<open>Previous\<close> at the first question of the first section.
\<close>

datatype event = Choose string | Next | Previous

definition currentQuestion :: "page \<Rightarrow> question option" where
  "currentQuestion p =
     (let qs = getCurrentQuestions p; i = currentQuestionIndex p
      in if 0 \<le> i \<and> i < int (length qs) then Some (qs ! nat i) else None)"

definition currentAnswer :: "page \<Rightarrow> string option" where
  "currentAnswer p = map_of (answers p) (questionKey p)"

fun enabled :: "page \<Rightarrow> event \<Rightarrow> bool" where
  "enabled p (Choose v) =
     (p_assessment p \<noteq> None \<and>
      (case currentQuestion p of Some q \<Rightarrow> v \<in> set (options q) | None \<Rightarrow> False))"
| "enabled p Next =
     (p_assessment p \<noteq> None \<and>
      (case currentAnswer p of Some v \<Rightarrow> v \<noteq> [] | None \<Rightarrow> False))"
| "enabled p Previous =
     (p_assessment p \<noteq> None \<and> \<not> (currentSection p = Work_ethics \<and> currentQuestionIndex p = 0))"

text \<open>One event on the page, with the table it may write to; a disabled control does nothing.\<close>

fun step :: "int \<Rightarrow> page \<times> assessment list \<Rightarrow> event \<Rightarrow> page \<times> assessment list" where
  "step now (p, rows) e =
     (if \<not> enabled p e then (p, rows)
      else case e of
             Choose v \<Rightarrow> (handleAnswerChange v p, rows)
           | Next \<Rightarrow> handleNext p now rows
           | Previous \<Rightarrow> (handlePrevious p, rows))"

definition run :: "int \<Rightarrow> page \<times> assessment list \<Rightarrow> event list \<Rightarrow> page \<times> assessment list" where
  "run now st es = foldl (step now) st es"



subsection \<open>The completion rate, in the words of the specification\<close>





subsection \<open>Frame of a submission, and a sample table\<close>

text \<open>A row with the four fields a submission writes blanked out.\<close>

definition unwritten :: "assessment \<Rightarrow> assessment" where
  "unwritten r = r\<lparr>responses := None, score := None, status := Sent, updated_at := 0\<rparr>"

text \<open>
  One assessment as \<open>generate-assessment\<close> leaves it at time 0 for the application of
  applicant \<open>u1\<close>, the database before that, and a modal and a page of that applicant
  before anything is loaded.
\<close>

definition sample_row :: assessment where
  "sample_row =
     \<lparr>assessment_id = ''a1'', application_id = ''app1'', job_id = ''j1'', applicant_id = ''u1'',
      questions = defaultQuestions, status = Sent,
      assessment_url = assessment_url_of ''a1'',
      score = None, responses = None, expires_at = seven_days, created_at = 0, updated_at = 0\<rparr>"


definition closed_modal :: modal where
  "closed_modal =
     \<lparr>m_assessmentId = ''a1'', m_user = ''u1'', m_assessment = None, m_responses = [],
      timeRemaining = 0\<rparr>"

definition closed_page :: page where
  "closed_page =
     \<lparr>p_assessmentId = ''a1'', p_user = ''u1'', p_assessment = None,
      currentSection = Work_ethics, currentQuestionIndex = 0, answers = []\<rparr>"

definition completed_row :: assessment where
  "completed_row = sample_row\<lparr>status := Completed\<rparr>"

text \<open>
  Two sessions of the applicant load the sample assessment at time 1000, while it is
  \<open>sent\<close> and not expired; the first answers one question and submits at time 2000.
\<close>

definition loaded_modal :: modal where
  "loaded_modal = snd (fetchAssessment [sample_row] 1000 closed_modal)"

definition answering_modal :: modal where
  "answering_modal = handleResponseChange ''question_0'' ''Plan ahead'' loaded_modal"

definition after_first_submission :: "assessment list" where
  "after_first_submission = snd (handleSubmit answering_modal 2000 [sample_row])"

text \<open>
  On the standalone page the applicant answers the first question, moves on and answers
  the second.
\<close>

definition sample_events :: "event list" where
  "sample_events = [Choose ''Plan ahead'', Next, Choose ''Growth'']"


section \<open>Properties of the match scoring\<close>

text \<open>
  The server-side score is an integer from 60 to 100 unless the job's list of required
  skills is empty.
\<close>

lemma starts_with_refl: "starts_with s s"
  by (induction s) simp_all

lemma str_includes_refl: "str_includes s s"
  by (cases s) (simp_all add: starts_with_refl)

lemma skills_term_finite:
  assumes "rs \<noteq> []"
  shows "\<exists>x. skills_term ps rs = Num x \<and> 0 \<le> x"
  using assms by (simp add: skills_term_def js_div_def Let_def)

lemma experience_bonus_cases: "experience_bonus l y = 0 \<or> experience_bonus l y = 10"
  by (simp add: experience_bonus_def)

lemma round_clamp_range:
  assumes "60 \<le> x"
  shows "\<exists>k. Math_min (Math_round (Num x)) 100 = Int_val k \<and> 60 \<le> k \<and> k \<le> 100"
proof -
  have "60 \<le> \<lfloor>x + 1 / 2\<rfloor>"
    using assms by (simp add: le_floor_iff)
  then show ?thesis by simp
qed

lemma matchScore_range:
  assumes "Option.bind j skills_required \<noteq> Some []"
  shows "\<exists>k. matchScore j p = Int_val k \<and> 60 \<le> k \<and> k \<le> 100"
proof -
  obtain x where s1: "(case (Option.bind p skills, Option.bind j skills_required) of
                  (Some ps, Some rs) \<Rightarrow> js_plus (Num 60) (skills_term ps rs)
                | _ \<Rightarrow> Num 60) = Num x" and x: "60 \<le> x"
  proof (cases "Option.bind p skills")
    case None
    then show ?thesis using that [of 60] by simp
  next
    case (Some ps)
    show ?thesis
    proof (cases "Option.bind j skills_required")
      case None
      then show ?thesis using Some that [of 60] by simp
    next
      case (Some rs)
      with assms have "rs \<noteq> []" by simp
      then obtain y where "skills_term ps rs = Num y" "0 \<le> y"
        using skills_term_finite by blast
      then show ?thesis using Some \<open>Option.bind p skills = Some ps\<close> that [of "60 + y"] by simp
    qed
  qed
  obtain b where s2: "(case (Option.bind p experience_years, Option.bind j experience_level) of
                  (Some y, Some l) \<Rightarrow>
                    if y \<noteq> 0 \<and> l \<noteq> [] then js_plus (Num x) (Num (experience_bonus l y)) else Num x
                | _ \<Rightarrow> Num x) = Num (x + b)" and b: "0 \<le> b"
  proof (cases "Option.bind p experience_years")
    case None
    then show ?thesis using that [of 0] by simp
  next
    case (Some y)
    show ?thesis
    proof (cases "Option.bind j experience_level")
      case None
      then show ?thesis using Some that [of 0] by simp
    next
      case (Some l)
      show ?thesis
      proof (cases "y \<noteq> 0 \<and> l \<noteq> []")
        case True
        have "0 \<le> experience_bonus l y"
          using experience_bonus_cases [of l y] by auto
        then show ?thesis
          using True Some \<open>Option.bind p experience_years = Some y\<close>
            that [of "experience_bonus l y"] by simp
      next
        case False
        then show ?thesis
          using Some \<open>Option.bind p experience_years = Some y\<close> that [of 0] by auto
      qed
    qed
  qed
  have "matchScore j p = Math_min (Math_round (Num (x + b))) 100"
    unfolding matchScore_def Let_def s1 s2 ..
  moreover have "60 \<le> x + b" using x b by simp
  ultimately show ?thesis using round_clamp_range by simp
qed

text \<open>
  The client-side score is an integer from 0 to 100 unless the job's list of required
  skills is empty, and the server-side score is 100 for identical, non-empty skill lists
  at the levels the bonus knows.
\<close>

lemma skillScore_range:
  assumes "rs \<noteq> []"
  shows "\<exists>x. skillScore rs us = Num x \<and> 0 \<le> x \<and> x \<le> 100"
proof -
  define m where "m = length (filter (\<lambda>skill. list_ex (\<lambda>userSkill.
                       str_includes (toLowerCase userSkill) (toLowerCase skill) \<or>
                       str_includes (toLowerCase skill) (toLowerCase userSkill)) us) rs)"
  define q where "q = (of_nat m :: rat) / of_nat (length rs)"
  have "m \<le> length rs" unfolding m_def by (rule length_filter_le)
  then have "(of_nat m :: rat) \<le> of_nat (length rs)" by (simp only: of_nat_le_iff)
  moreover have "0 < (of_nat (length rs) :: rat)" using assms by simp
  ultimately have "q \<le> 1"
    unfolding q_def by (simp add: divide_le_eq)
  then have hi: "q * 100 \<le> 100" by simp
  have "0 \<le> q" unfolding q_def by simp
  then have lo: "0 \<le> q * 100" by simp
  have "skillScore rs us = Num (q * 100)"
    using assms by (simp add: skillScore_def js_div_def Let_def q_def m_def)
  with lo hi show ?thesis by blast
qed

lemma experienceScore_range: "0 \<le> experienceScore l y \<and> experienceScore l y \<le> 100"
proof -
  have a: "(of_int y :: rat) * 33 \<le> 100" if "\<not> 3 \<le> y"
  proof -
    from that have "y \<le> 2" by simp
    then have "(of_int y :: rat) \<le> 2" by (metis of_int_le_numeral_iff)
    then show ?thesis by simp
  qed
  have b: "(of_int y :: rat) * 14 \<le> 100" if "\<not> 7 \<le> y"
  proof -
    from that have "y \<le> 6" by simp
    then have "(of_int y :: rat) \<le> 6" by (metis of_int_le_numeral_iff)
    then show ?thesis by simp
  qed
  have c: "(of_int y :: rat) * 10 \<le> 100" if "\<not> 10 \<le> y"
  proof -
    from that have "y \<le> 9" by simp
    then have "(of_int y :: rat) \<le> 9" by (metis of_int_le_numeral_iff)
    then show ?thesis by simp
  qed
  show ?thesis
    using a b c by (simp add: experienceScore_def)
qed

lemma weighted_round_range:
  assumes "0 \<le> s" and "s \<le> 100 * f" and "0 < f"
  shows "\<exists>k. Math_round (js_over (Num s) f) = Int_val k \<and> 0 \<le> k \<and> k \<le> 100"
proof -
  have lo: "0 \<le> s / f" using assms(1,3) by simp
  have hi: "s / f \<le> 100" using assms(2,3) by (simp add: divide_le_eq)
  have "0 \<le> \<lfloor>s / f + 1 / 2\<rfloor>"
    using lo by (simp add: le_floor_iff)
  moreover have "\<lfloor>s / f + 1 / 2\<rfloor> < 101"
    using hi by (simp add: floor_less_iff)
  ultimately show ?thesis by simp
qed

lemma skills_block_range:
  assumes "skills_required j \<noteq> Some []"
  shows "\<exists>s f. skills_block j p = (Num s, f) \<and> 0 \<le> s \<and> s \<le> 100 * f \<and> 0 \<le> f"
proof (cases "skills_required j")
  case None
  then show ?thesis by (simp add: skills_block_def)
next
  case rs: (Some rs)
  show ?thesis
  proof (cases "skills p")
    case None
    then show ?thesis using rs by (simp add: skills_block_def)
  next
    case (Some us)
    from rs assms have "rs \<noteq> []" by simp
    then obtain x where x: "skillScore rs us = Num x" "0 \<le> x" "x \<le> 100"
      using skillScore_range by blast
    have "skills_block j p = (Num (x * (4 / 10)), 4 / 10)"
      using rs Some x(1) by (simp add: skills_block_def)
    moreover have "0 \<le> x * (4 / 10)" "x * (4 / 10) \<le> 100 * (4 / 10)" "(0 :: rat) \<le> 4 / 10"
      using x(2,3) by simp_all
    ultimately show ?thesis by blast
  qed
qed

lemma experience_block_range:
  assumes "0 \<le> s" and "s \<le> 100 * f" and "0 \<le> f"
  shows "\<exists>s' f'. experience_block j p (Num s, f) = (Num s', f') \<and>
                 0 \<le> s' \<and> s' \<le> 100 * f' \<and> 0 \<le> f'"
proof (cases "experience_years p")
  case None
  then show ?thesis using assms by (simp add: experience_block_def)
next
  case (Some y)
  show ?thesis
  proof (cases "y = 0")
    case True
    then show ?thesis using Some assms by (simp add: experience_block_def)
  next
    case False
    let ?e = "experienceScore (experience_level j) y"
    have "0 \<le> ?e" "?e \<le> 100" using experienceScore_range by simp_all
    then have "0 \<le> s + ?e * (3 / 10)" "s + ?e * (3 / 10) \<le> 100 * (f + 3 / 10)"
      "0 \<le> f + 3 / 10"
      using assms by simp_all
    moreover have "experience_block j p (Num s, f) = (Num (s + ?e * (3 / 10)), f + 3 / 10)"
      using False Some by (simp add: experience_block_def)
    ultimately show ?thesis by blast
  qed
qed

lemma calculateMatchScore_range:
  assumes "skills_required j \<noteq> Some []"
  shows "\<exists>k. calculateMatchScore ap j = Int_val k \<and> 0 \<le> k \<and> k \<le> 100"
proof (cases ap)
  case None
  then show ?thesis by (simp add: calculateMatchScore_def)
next
  case (Some p)
  from skills_block_range [OF assms] obtain s1 f1
    where one: "skills_block j p = (Num s1, f1)" and "0 \<le> s1" "s1 \<le> 100 * f1" "0 \<le> f1"
    by blast
  from experience_block_range [OF this(2-4)] obtain s2 f2
    where two: "experience_block j p (Num s1, f1) = (Num s2, f2)"
      and r2: "0 \<le> s2" "s2 \<le> 100 * f2" "0 \<le> f2"
    by blast
  have "calculateMatchScore ap j = Math_round (js_over (Num (s2 + 75 * (3 / 10))) (f2 + 3 / 10))"
    by (simp add: calculateMatchScore_def Some one two)
  moreover have "0 \<le> s2 + 75 * (3 / 10)" "s2 + 75 * (3 / 10) \<le> 100 * (f2 + 3 / 10)"
    "0 < f2 + 3 / 10"
    using r2 by simp_all
  ultimately show ?thesis
    using weighted_round_range by simp
qed

lemma matching_all:
  "filter (\<lambda>skill. list_ex (\<lambda>req. str_includes req skill \<or> str_includes skill req) xs) xs = xs"
  by (rule filter_True) (auto simp: list_ex_iff intro: str_includes_refl)

lemma skills_term_identical: "rs \<noteq> [] \<Longrightarrow> skills_term rs rs = Num 30"
  by (simp add: skills_term_def Let_def matching_all js_div_def)

lemma matchScore_identical_skills:
  assumes "rs \<noteq> []"
    and "l = ''senior'' \<and> 5 \<le> y \<or> l = ''mid'' \<and> 2 \<le> y \<or> l = ''junior'' \<and> 0 < y"
  shows "matchScore (Some \<lparr>skills_required = Some rs, experience_level = Some l\<rparr>)
           (Some \<lparr>skills = Some rs, experience_years = Some y\<rparr>) = Int_val 100"
proof -
  have "experience_bonus l y = 10" "y \<noteq> 0" "l \<noteq> []"
    using assms(2) by (auto simp: experience_bonus_def)
  moreover have "\<lfloor>(201 :: rat) / 2\<rfloor> = 100"
    by (simp add: floor_eq_iff)
  ultimately show ?thesis
    using assms(1) by (simp add: matchScore_def skills_term_identical)
qed

text \<open>
  Claim C4. For the job requiring \<open>["React","Node.js"]\<close> at level \<open>mid\<close> and the applicant
  with skills \<open>["react","aws"]\<close> and 3 years of experience, the server-side path computes
  the score 85, stores it with its analysis text, and the text carries the label
  \<open>Strong\<close>.
\<close>

theorem mid_react_scenario:
  "matchScore (Some \<lparr>skills_required = Some [''React'', ''Node.js''], experience_level = Some ''mid''\<rparr>)
     (Some \<lparr>skills = Some [''react'', ''aws''], experience_years = Some 3\<rparr>) = Int_val 85 \<and>
   ai_analysis t jobId applicantId
     (Some \<lparr>skills_required = Some [''React'', ''Node.js''], experience_level = Some ''mid''\<rparr>)
     (Some \<lparr>skills = Some [''react'', ''aws''], experience_years = Some 3\<rparr>) =
   Inr ((Int_val 85,
         ''Candidate shows 85% compatibility with the role. Strong match based on skills and experience.''),
        t((jobId, applicantId) \<mapsto>
          \<lparr>match_score = 85,
           analysis = ''Candidate shows 85% compatibility with the role. Strong match based on skills and experience.''\<rparr>)) \<and>
   str_includes (analysis_text (Int_val 85)) ''Strong''"
proof -
  have ms: "matchScore (Some \<lparr>skills_required = Some [''React'', ''Node.js''], experience_level = Some ''mid''\<rparr>)
     (Some \<lparr>skills = Some [''react'', ''aws''], experience_years = Some 3\<rparr>) = Int_val 85"
    by code_simp
  have msg: "analysis_text (Int_val 85) =
    ''Candidate shows 85% compatibility with the role. Strong match based on skills and experience.''"
    by code_simp
  have lbl: "str_includes (analysis_text (Int_val 85)) ''Strong''"
    by code_simp
  show ?thesis
    using lbl by (simp add: ms ai_analysis_def upsert_score_def msg Let_def)
qed

text \<open>
  Claim C1. The scoring is meant to return an integer in \<open>[0, 100]\<close> also for a job whose
  list of required skills is empty. It does not: with \<open>skills_required = []\<close> and any
  skills array on the profile, both paths divide \<open>0\<close> by \<open>0\<close>. The server-side score
  is \<open>NaN\<close>, the upsert into \<open>ai_match_scores\<close> is refused and the function answers with
  an error; the client-side \<open>calculateMatchScore\<close> returns \<open>NaN\<close>.
\<close>

theorem empty_skills_required_NaN:
  "matchScore (Some \<lparr>skills_required = Some [], experience_level = Some ''mid''\<rparr>)
     (Some \<lparr>skills = Some [''react''], experience_years = Some 3\<rparr>) = NaN_val \<and>
   ai_analysis t jobId applicantId
     (Some \<lparr>skills_required = Some [], experience_level = Some ''mid''\<rparr>)
     (Some \<lparr>skills = Some [''react''], experience_years = Some 3\<rparr>) =
   Inl ''Failed to save match score'' \<and>
   calculateMatchScore (Some \<lparr>skills = Some [''react''], experience_years = Some 3\<rparr>)
     \<lparr>skills_required = Some [], experience_level = Some ''mid''\<rparr> = NaN_val"
proof -
  have ms: "matchScore (Some \<lparr>skills_required = Some [], experience_level = Some ''mid''\<rparr>)
     (Some \<lparr>skills = Some [''react''], experience_years = Some 3\<rparr>) = NaN_val"
    by code_simp
  have cl: "calculateMatchScore (Some \<lparr>skills = Some [''react''], experience_years = Some 3\<rparr>)
     \<lparr>skills_required = Some [], experience_level = Some ''mid''\<rparr> = NaN_val"
    by code_simp
  show ?thesis
    by (simp add: ms cl ai_analysis_def upsert_score_def)
qed

text \<open>
  Claim C5. A profile whose skills are the job's required skills and whose experience
  meets every bracket is meant to score 100. The server-side path gives the bonus for
  the levels \<open>senior\<close>, \<open>mid\<close> and \<open>junior\<close> only: for the levels \<open>entry\<close> and
  \<open>executive\<close> of the \<open>jobs.experience_level\<close> check constraint the same profile scores
  90, where for \<open>senior\<close> it scores 100.
\<close>

theorem entry_and_executive_get_no_bonus:
  "matchScore (Some \<lparr>skills_required = Some [''React'', ''Node.js''], experience_level = Some ''entry''\<rparr>)
     (Some \<lparr>skills = Some [''React'', ''Node.js''], experience_years = Some 10\<rparr>) = Int_val 90 \<and>
   matchScore (Some \<lparr>skills_required = Some [''React'', ''Node.js''], experience_level = Some ''executive''\<rparr>)
     (Some \<lparr>skills = Some [''React'', ''Node.js''], experience_years = Some 10\<rparr>) = Int_val 90 \<and>
   matchScore (Some \<lparr>skills_required = Some [''React'', ''Node.js''], experience_level = Some ''senior''\<rparr>)
     (Some \<lparr>skills = Some [''React'', ''Node.js''], experience_years = Some 10\<rparr>) = Int_val 100"
  by code_simp

text \<open>
  Claim C10. \<open>getAverageMatchScore\<close> returns an integer from 60 to 99 whatever
  \<open>Math.random()\<close> yields in \<open>[0, 1)\<close>, the candidate plays no part in it, and two
  calls for the same candidate can differ.
\<close>

theorem getAverageMatchScore_range:
  assumes "0 \<le> random" and "random < 1"
  shows "60 \<le> getAverageMatchScore candidate random \<and>
         getAverageMatchScore candidate random \<le> 99 \<and>
         getAverageMatchScore other random = getAverageMatchScore candidate random \<and>
         getAverageMatchScore candidate 0 \<noteq> getAverageMatchScore candidate (1 / 2)"
proof -
  have lo: "0 \<le> \<lfloor>random * 40\<rfloor>"
    using assms(1) by simp
  have "random * 40 < 40"
    using assms(2) by simp
  then have hi: "\<lfloor>random * 40\<rfloor> < 40"
    by (simp add: floor_less_iff)
  have diff: "getAverageMatchScore candidate 0 \<noteq> getAverageMatchScore candidate (1 / 2)"
    by (simp add: getAverageMatchScore_def)
  from lo hi diff show ?thesis
    by (simp add: getAverageMatchScore_def)
qed

theorem getAverageMatchScore_range_witness:
  "60 \<le> getAverageMatchScore ''c1'' (3 / 4) \<and> getAverageMatchScore ''c1'' (3 / 4) \<le> 99 \<and>
   getAverageMatchScore ''c2'' (3 / 4) = getAverageMatchScore ''c1'' (3 / 4)"
  using getAverageMatchScore_range [of "3 / 4" "''c1''" "''c2''"] by simp

section \<open>Properties of the assessments\<close>

text \<open>
  Claim C6. The questions are presented with all \<open>work_ethics\<close> questions in order, then
  all \<open>technical\<close> questions in order, when the payload has the two buckets (a missing
  bucket counting as empty), and in the order of the list when the payload is a flat
  array; \<open>{work_ethics: [q1,q2], technical: [q3,q4]}\<close> is presented as \<open>[q1,q2,q3,q4]\<close>.
\<close>

theorem questionsArray_order:
  "questionsArray (Bucketed (Some w) (Some t)) = w @ t \<and>
   questionsArray (Bucketed (Some w) None) = w \<and>
   questionsArray (Bucketed None (Some t)) = t \<and>
   questionsArray (Bucketed None None) = [] \<and>
   questionsArray (Flat qs) = qs \<and>
   questionsArray (Bucketed (Some [q1, q2]) (Some [q3, q4])) = [q1, q2, q3, q4]"
  by simp

subsection \<open>Generation\<close>






subsection \<open>What a submission leaves alone\<close>

lemma update_rows_unwritten:
  "map unwritten (update_rows uid aid (submission rs sc now) rows) = map unwritten rows"
  by (simp add: update_rows_def submission_def unwritten_def)

lemma unwritten_expires_at: "expires_at (unwritten r) = expires_at r"
  by (simp add: unwritten_def)

lemma same_unwritten_same_expiry:
  assumes "map unwritten rows' = map unwritten rows"
  shows "map expires_at rows' = map expires_at rows"
proof -
  have "map expires_at rows' = map (expires_at \<circ> unwritten) rows'"
    by (simp add: unwritten_expires_at)
  also have "\<dots> = map expires_at (map unwritten rows')" by simp
  also have "\<dots> = map expires_at (map unwritten rows)" using assms by simp
  also have "\<dots> = map expires_at rows" by (simp add: unwritten_expires_at)
  finally show ?thesis .
qed

lemma handleSubmit_unwritten: "map unwritten (snd (handleSubmit m now rows)) = map unwritten rows"
  by (simp add: handleSubmit_def update_rows_unwritten split: option.splits)

lemma page_handleSubmit_unwritten: "map unwritten (page_handleSubmit p now rows) = map unwritten rows"
  by (simp add: page_handleSubmit_def update_rows_unwritten)

lemma step_unwritten: "map unwritten (snd (step now (p, rows) e)) = map unwritten rows"
  by (cases e) (simp_all add: handleNext_def page_handleSubmit_unwritten)

lemma run_unwritten: "map unwritten (snd (run now st es)) = map unwritten (snd st)"
proof (induction es arbitrary: st)
  case Nil
  then show ?case by (simp add: run_def)
next
  case (Cons e es)
  obtain p rows where st: "st = (p, rows)" by (cases st)
  have "map unwritten (snd (run now st (e # es))) =
        map unwritten (snd (run now (step now st e) es))"
    by (simp add: run_def)
  also have "\<dots> = map unwritten (snd (step now st e))"
    by (rule Cons.IH)
  also have "\<dots> = map unwritten (snd st)"
    unfolding st by (simp only: step_unwritten snd_conv)
  finally show ?case .
qed

text \<open>
  Claim C9. The two submission paths, the only operations that change an assessment
  after its creation, write nothing but \<open>responses\<close>, \<open>score\<close>, \<open>status\<close> and
  \<open>updated_at\<close>: every row keeps its \<open>expires_at\<close> (and all its other fields), also
  over any sequence of events on the standalone page.
\<close>

theorem submission_frame:
  "map unwritten (snd (handleSubmit m now rows)) = map unwritten rows \<and>
   map expires_at (snd (handleSubmit m now rows)) = map expires_at rows \<and>
   map unwritten (page_handleSubmit p now rows) = map unwritten rows \<and>
   map expires_at (page_handleSubmit p now rows) = map expires_at rows \<and>
   map expires_at (snd (run now (p, rows) es)) = map expires_at rows"
proof -
  have modal: "map unwritten (snd (handleSubmit m now rows)) = map unwritten rows"
    by (rule handleSubmit_unwritten)
  have page: "map unwritten (page_handleSubmit p now rows) = map unwritten rows"
    by (rule page_handleSubmit_unwritten)
  have "map unwritten (snd (run now (p, rows) es)) = map unwritten (snd (p, rows))"
    by (rule run_unwritten)
  then have events: "map unwritten (snd (run now (p, rows) es)) = map unwritten rows"
    by (simp only: snd_conv)
  show ?thesis
    using modal page same_unwritten_same_expiry [OF modal] same_unwritten_same_expiry [OF page]
      same_unwritten_same_expiry [OF events]
    by (intro conjI)
qed

subsection \<open>Submitting to a completed or expired assessment\<close>

lemma run_without_assessment:
  assumes "p_assessment p = None"
  shows "run now (p, rows) es = (p, rows)"
proof (induction es)
  case Nil
  show ?case by (simp add: run_def)
next
  case (Cons e es)
  have "step now (p, rows) e = (p, rows)"
    using assms by (cases e) simp_all
  then show ?case
    using Cons.IH by (simp add: run_def)
qed

lemma handleSubmit_nothing_loaded:
  "m_assessment m = None \<Longrightarrow> handleSubmit m now rows = (Nothing_loaded, rows)"
  by (simp add: handleSubmit_def)

text \<open>
  Claim C2, as stated, fails: a submission is not checked against the stored status. A
  session that loaded the assessment before the first submission still writes its own
  responses and score over the completed record.
\<close>

theorem second_submission_overwrites:
  "map status after_first_submission = [Completed] \<and>
   map score after_first_submission = [Some 25] \<and>
   fst (handleSubmit loaded_modal 3000 after_first_submission) = Submitted \<and>
   map score (snd (handleSubmit loaded_modal 3000 after_first_submission)) = [Some 0] \<and>
   snd (handleSubmit loaded_modal 3000 after_first_submission) \<noteq> after_first_submission"
  by code_simp

text \<open>
  Claim C2, amended. The status is checked when the assessment is loaded: an assessment
  that is already \<open>completed\<close> is refused by \<open>fetchAssessment\<close> (on the standalone page
  with the completed or, when it is also past its expiry, the expired message), nothing
  is loaded, and then nothing is written: the modal's \<open>handleSubmit\<close> returns at once
  and the page offers no control.
\<close>

theorem completed_is_refused_at_load:
  assumes "status data = Completed"
  shows "(modal_select rows m = [data] \<and> m_assessment m = None \<longrightarrow>
            fetchAssessment rows now m = (Already_completed, m) \<and>
            handleSubmit (snd (fetchAssessment rows now m)) later rows = (Nothing_loaded, rows)) \<and>
         (page_select recruiter rows p = [data] \<and> p_assessment p = None \<longrightarrow>
            (fst (page_fetchAssessment recruiter rows now p) = Already_completed \<or>
             fst (page_fetchAssessment recruiter rows now p) = Has_expired) \<and>
            run later (snd (page_fetchAssessment recruiter rows now p), rows) es =
              (p, rows))"
proof (intro conjI impI)
  assume h: "modal_select rows m = [data] \<and> m_assessment m = None"
  then show f: "fetchAssessment rows now m = (Already_completed, m)"
    using assms by (simp add: fetchAssessment_def)
  show "handleSubmit (snd (fetchAssessment rows now m)) later rows = (Nothing_loaded, rows)"
    using h by (simp add: f handleSubmit_nothing_loaded)
next
  assume h: "page_select recruiter rows p = [data] \<and> p_assessment p = None"
  then show "fst (page_fetchAssessment recruiter rows now p) = Already_completed \<or>
             fst (page_fetchAssessment recruiter rows now p) = Has_expired"
    using assms by (simp add: page_fetchAssessment_def)
  have "snd (page_fetchAssessment recruiter rows now p) = p"
    using h assms by (simp add: page_fetchAssessment_def)
  then show "run later (snd (page_fetchAssessment recruiter rows now p), rows) es = (p, rows)"
    using h by (simp add: run_without_assessment)
qed

theorem completed_is_refused_at_load_witness:
  "status completed_row = Completed \<and>
   modal_select [completed_row] closed_modal = [completed_row] \<and>
   m_assessment closed_modal = None \<and>
   page_select Map.empty [completed_row] closed_page = [completed_row] \<and>
   p_assessment closed_page = None \<and>
   fetchAssessment [completed_row] 1000 closed_modal = (Already_completed, closed_modal) \<and>
   handleSubmit (snd (fetchAssessment [completed_row] 1000 closed_modal)) 2000 [completed_row] =
     (Nothing_loaded, [completed_row]) \<and>
   (fst (page_fetchAssessment Map.empty [completed_row] 1000 closed_page) = Already_completed \<or>
    fst (page_fetchAssessment Map.empty [completed_row] 1000 closed_page) = Has_expired) \<and>
   run 2000 (snd (page_fetchAssessment Map.empty [completed_row] 1000 closed_page), [completed_row])
     sample_events = (closed_page, [completed_row])"
proof -
  have h: "status completed_row = Completed"
    by (simp add: completed_row_def)
  have hm: "modal_select [completed_row] closed_modal = [completed_row] \<and>
            m_assessment closed_modal = None"
    by (simp add: modal_select_def completed_row_def sample_row_def closed_modal_def)
  have hp: "page_select Map.empty [completed_row] closed_page = [completed_row] \<and>
            p_assessment closed_page = None"
    by (simp add: page_select_def completed_row_def sample_row_def closed_page_def)
  from completed_is_refused_at_load
    [OF h, where rows = "[completed_row]" and m = closed_modal and now = 1000 and later = 2000
       and recruiter = Map.empty and p = closed_page and es = sample_events]
    h hm hp
  show ?thesis by blast
qed

text \<open>
  Claim C3, as stated, fails: a submission is not checked against \<open>expires_at\<close>. A
  session that loaded the assessment in time writes its submission one second after the
  expiry.
\<close>

theorem submission_after_expiry_is_written:
  "fst (fetchAssessment [sample_row] 1000 closed_modal) = Loaded \<and>
   expires_at sample_row < expires_at sample_row + 1000 \<and>
   fst (handleSubmit loaded_modal (expires_at sample_row + 1000) [sample_row]) = Submitted \<and>
   map status (snd (handleSubmit loaded_modal (expires_at sample_row + 1000) [sample_row])) = [Completed] \<and>
   snd (handleSubmit loaded_modal (expires_at sample_row + 1000) [sample_row]) \<noteq> [sample_row]"
  by code_simp

text \<open>
  Claim C3, amended. The expiry is checked when the assessment is loaded: at a time
  strictly later than \<open>expires_at\<close> the load is refused, with the expired message on the
  standalone page and in the modal (where a completed assessment gets the completed
  message instead), nothing is loaded, and then nothing is written.
\<close>

theorem expired_is_refused_at_load:
  assumes "expires_at data < now"
  shows "(modal_select rows m = [data] \<and> m_assessment m = None \<longrightarrow>
            (fst (fetchAssessment rows now m) =
               (if status data = Completed then Already_completed else Has_expired)) \<and>
            handleSubmit (snd (fetchAssessment rows now m)) later rows = (Nothing_loaded, rows)) \<and>
         (page_select recruiter rows p = [data] \<and> p_assessment p = None \<longrightarrow>
            fst (page_fetchAssessment recruiter rows now p) = Has_expired \<and>
            run later (snd (page_fetchAssessment recruiter rows now p), rows) es =
              (p, rows))"
proof (intro conjI impI)
  assume h: "modal_select rows m = [data] \<and> m_assessment m = None"
  then show "fst (fetchAssessment rows now m) =
               (if status data = Completed then Already_completed else Has_expired)"
    using assms by (simp add: fetchAssessment_def)
  have "snd (fetchAssessment rows now m) = m"
    using h assms by (simp add: fetchAssessment_def)
  then show "handleSubmit (snd (fetchAssessment rows now m)) later rows = (Nothing_loaded, rows)"
    using h by (simp add: handleSubmit_nothing_loaded)
next
  assume h: "page_select recruiter rows p = [data] \<and> p_assessment p = None"
  then show "fst (page_fetchAssessment recruiter rows now p) = Has_expired"
    using assms by (simp add: page_fetchAssessment_def)
  have "snd (page_fetchAssessment recruiter rows now p) = p"
    using h assms by (simp add: page_fetchAssessment_def)
  then show "run later (snd (page_fetchAssessment recruiter rows now p), rows) es = (p, rows)"
    using h by (simp add: run_without_assessment)
qed

theorem expired_is_refused_at_load_witness:
  "expires_at sample_row < seven_days + 1000 \<and>
   modal_select [sample_row] closed_modal = [sample_row] \<and>
   m_assessment closed_modal = None \<and>
   page_select Map.empty [sample_row] closed_page = [sample_row] \<and>
   p_assessment closed_page = None \<and>
   fst (fetchAssessment [sample_row] (seven_days + 1000) closed_modal) =
     (if status sample_row = Completed then Already_completed else Has_expired) \<and>
   handleSubmit (snd (fetchAssessment [sample_row] (seven_days + 1000) closed_modal))
     (seven_days + 2000) [sample_row] = (Nothing_loaded, [sample_row]) \<and>
   fst (page_fetchAssessment Map.empty [sample_row] (seven_days + 1000) closed_page) = Has_expired \<and>
   run (seven_days + 2000)
     (snd (page_fetchAssessment Map.empty [sample_row] (seven_days + 1000) closed_page), [sample_row])
     sample_events = (closed_page, [sample_row])"
proof -
  have h: "expires_at sample_row < seven_days + 1000"
    by (simp add: sample_row_def)
  have hm: "modal_select [sample_row] closed_modal = [sample_row] \<and>
            m_assessment closed_modal = None"
    by (simp add: modal_select_def sample_row_def closed_modal_def)
  have hp: "page_select Map.empty [sample_row] closed_page = [sample_row] \<and>
            p_assessment closed_page = None"
    by (simp add: page_select_def sample_row_def closed_page_def)
  from expired_is_refused_at_load
    [OF h, where rows = "[sample_row]" and m = closed_modal and later = "seven_days + 2000"
       and recruiter = Map.empty and p = closed_page and es = sample_events]
    h hm hp
  show ?thesis by blast
qed

subsection \<open>The score of a submission\<close>





























end
